theory Spec2Isabelle
  imports Main "HOL-Library.Sublist"
begin

section \<open>Data model of \<^verbatim>\<open>app.py\<close>\<close>

text \<open>
  The client talks to a remote backend through the \<^verbatim>\<open>requests\<close> library. Every call
  either returns the decoded JSON body or raises; an exception is a value that carries
  the text \<^verbatim>\<open>str(e)\<close>. \<^verbatim>\<open>upload_file\<close> tells \<^verbatim>\<open>requests.exceptions.RequestException\<close>
  (transport errors, the \<^verbatim>\<open>HTTPError\<close> of \<^verbatim>\<open>raise_for_status\<close>) from every other exception,
  so the two kinds are kept apart.
\<close>

datatype exn = RequestException string | OtherException string

fun str_exn :: "exn \<Rightarrow> string" where
  "str_exn (RequestException m) = m"
| "str_exn (OtherException m) = m"

text \<open>What a Python call does: it raises, or it returns a value.\<close>

datatype 'a outcome = Raises exn | Returns 'a

text \<open>
  A JSON scalar, as \<^verbatim>\<open>response.json()\<close> decodes it. \<^verbatim>\<open>file_id\<close> is such a value:
  \<^verbatim>\<open>delete_files_from_db\<close> starts from \<^verbatim>\<open>file_id = None\<close> and tests \<^verbatim>\<open>if file_id:\<close>,
  Python's truth value.
\<close>

datatype pyval = PNone | PBool bool | PInt int | PStr string

fun truthy :: "pyval \<Rightarrow> bool" where
  "truthy PNone = False"
| "truthy (PBool b) = b"
| "truthy (PInt i) = (i \<noteq> 0)"
| "truthy (PStr s) = (s \<noteq> [])"

text \<open>A document record of \<^verbatim>\<open>GET /vector-db/info\<close>: \<^verbatim>\<open>{"file_id": ..., "filename": ...}\<close>.\<close>

record document =
  file_id :: pyval
  filename :: string

text \<open>
  The body of \<^verbatim>\<open>GET /vector-db/info\<close>. The key \<^verbatim>\<open>"files"\<close> may be absent
  (\<^verbatim>\<open>info.get("files", [])\<close> has a default), which is \<open>None\<close> here.
\<close>

record snapshot =
  snapshot_status :: string
  files :: "document list option"

text \<open>The dictionary \<^verbatim>\<open>{"status": ..., "message": ...}\<close> the client builds on failure.\<close>

record error_result =
  status :: string
  message :: string

text \<open>An opaque JSON object handed through to the user interface (the upload reply).\<close>

type_synonym json_object = "(string \<times> pyval) list"

text \<open>One entry of the history sent to \<^verbatim>\<open>POST /chat\<close>, and the reply of that call.\<close>

record wire_entry =
  role :: string
  content :: string

record source =
  source_filename :: string

record chat_reply =
  answer :: string
  sources :: "source list"

text \<open>Gradio's file object; only \<^verbatim>\<open>file.name\<close>, the path of the temporary file, is read.\<close>

record gradio_file =
  name :: string

section \<open>The outside world\<close>

text \<open>
  What the client does to the outside: the four HTTP calls and the local \<^verbatim>\<open>open\<close>.
  The DELETE call is recorded with the identifier that is formatted into its URL.
\<close>

datatype effect =
    GET_info
  | POST_add_document string
  | DELETE_document pyval
  | POST_chat string "wire_entry list"
  | OPEN_file string

text \<open>
  The backend and the file system are parameters: each operation maps the state of
  the world \<open>'w\<close> to a reply and a new state. A reply \<open>Inl e\<close> (or \<open>Some e\<close> where
  no body is read) means that the call, \<^verbatim>\<open>raise_for_status\<close> or \<^verbatim>\<open>json\<close> raised \<open>e\<close>.
  A body that is returned has the shape of the backend's interface: the records above.
  The delete call stands for \<^verbatim>\<open>requests.delete\<close> followed by \<^verbatim>\<open>raise_for_status\<close>, the open
  call for \<^verbatim>\<open>open(file_path, 'rb')\<close>.
\<close>

record 'w backend =
  info_call :: "'w \<Rightarrow> (exn + snapshot) \<times> 'w"
  add_document_call :: "string \<Rightarrow> 'w \<Rightarrow> (exn + json_object) \<times> 'w"
  delete_call :: "pyval \<Rightarrow> 'w \<Rightarrow> exn option \<times> 'w"
  chat_call :: "string \<Rightarrow> wire_entry list \<Rightarrow> 'w \<Rightarrow> (exn + chat_reply) \<times> 'w"
  open_call :: "string \<Rightarrow> 'w \<Rightarrow> exn option \<times> 'w"

text \<open>The state threaded through the client: the world and the effects so far, oldest first.\<close>

type_synonym 'w st = "'w \<times> effect list"

definition perform :: "('w \<Rightarrow> 'a \<times> 'w) \<Rightarrow> effect \<Rightarrow> 'w st \<Rightarrow> 'a \<times> 'w st" where
  "perform call ev s =
     (case s of (w, lg) \<Rightarrow> (case call w of (r, w') \<Rightarrow> (r, (w', lg @ [ev]))))"

section \<open>String helpers of the Python library\<close>

text \<open>\<^verbatim>\<open>sep.join(xs)\<close>.\<close>

fun join :: "string \<Rightarrow> string list \<Rightarrow> string" where
  "join sep [] = []"
| "join sep [x] = x"
| "join sep (x # y # ys) = x @ sep @ join sep (y # ys)"

text \<open>\<^verbatim>\<open>os.path.basename\<close> on POSIX: everything after the last slash.\<close>

definition basename :: "string \<Rightarrow> string" where
  "basename p = rev (takeWhile (\<lambda>c. c \<noteq> CHR ''/'') (rev p))"

section \<open>API client\<close>

text \<open>\<^verbatim>\<open>get_vector_db_info\<close>: the body, or the error dictionary built by the handler.\<close>

definition get_vector_db_info ::
    "'w backend \<Rightarrow> 'w st \<Rightarrow> (error_result + snapshot) outcome \<times> 'w st" where
  "get_vector_db_info B s =
     (case perform (info_call B) GET_info s of
        (Inr body, s') \<Rightarrow> (Returns (Inr body), s')
      | (Inl e, s') \<Rightarrow>
          (Returns (Inl \<lparr>status = ''error'', message = str_exn e\<rparr>), s'))"

text \<open>The two handlers of \<^verbatim>\<open>upload_file\<close>, tried in the order of the source.\<close>

fun upload_handler :: "exn \<Rightarrow> error_result" where
  "upload_handler (RequestException m) =
     \<lparr>status = ''error'', message = ''Network error: '' @ m\<rparr>"
| "upload_handler (OtherException m) =
     \<lparr>status = ''error'', message = ''Upload error: '' @ m\<rparr>"

definition upload_file ::
    "'w backend \<Rightarrow> gradio_file option \<Rightarrow> 'w st \<Rightarrow>
       (error_result + json_object) outcome \<times> 'w st" where
  "upload_file B file s =
     (case file of
        None \<Rightarrow> (Returns (Inl \<lparr>status = ''error'', message = ''No file selected''\<rparr>), s)
      | Some fl \<Rightarrow>
          (let file_path = name fl in
           case perform (open_call B file_path) (OPEN_file file_path) s of
             (Some e, s') \<Rightarrow> (Returns (Inl (upload_handler e)), s')
           | (None, s') \<Rightarrow>
               (case perform (add_document_call B (basename file_path))
                       (POST_add_document (basename file_path)) s' of
                  (Inl e, s'') \<Rightarrow> (Returns (Inl (upload_handler e)), s'')
                | (Inr result, s'') \<Rightarrow> (Returns (Inr result), s''))))"

section \<open>Chat session\<close>

text \<open>The loop that flattens the transcript, with \<^verbatim>\<open>api_history\<close> as accumulator.\<close>

fun api_history_loop :: "(string \<times> string) list \<Rightarrow> wire_entry list \<Rightarrow> wire_entry list" where
  "api_history_loop [] api_history = api_history"
| "api_history_loop ((human, ai) # rest) api_history =
     api_history_loop rest
       ((api_history @ [\<lparr>role = ''user'', content = human\<rparr>])
          @ [\<lparr>role = ''assistant'', content = ai\<rparr>])"

text \<open>Lines 73 to 76: the answer, with the block of sources when \<^verbatim>\<open>sources\<close> is not empty.\<close>

definition format_answer :: "chat_reply \<Rightarrow> string" where
  "format_answer result =
     (if sources result \<noteq> []
      then answer result @ ''\<newline>\<newline>Sources:\<newline>''
             @ join ''\<newline>'' (map (\<lambda>s. ''- '' @ source_filename s) (sources result))
      else answer result)"

definition chat_with_documents ::
    "'w backend \<Rightarrow> string \<Rightarrow> (string \<times> string) list \<Rightarrow> 'w st \<Rightarrow>
       (string \<times> string) list outcome \<times> 'w st" where
  "chat_with_documents B msg history s =
     (let api_history = api_history_loop history [] in
      case perform (chat_call B msg api_history) (POST_chat msg api_history) s of
        (Inr result, s') \<Rightarrow> (Returns (history @ [(msg, format_answer result)]), s')
      | (Inl e, s') \<Rightarrow> (Returns (history @ [(msg, ''Error: '' @ str_exn e)]), s'))"

section \<open>File registry view\<close>

text \<open>
  \<^verbatim>\<open>get_uploaded_files_info\<close>: the list under \<^verbatim>\<open>"files"\<close>, the empty list when the key is
  absent or when anything raised. The two debugging \<^verbatim>\<open>print\<close> calls write to the console
  only and are left out.
\<close>

definition get_uploaded_files_info ::
    "'w backend \<Rightarrow> 'w st \<Rightarrow> document list outcome \<times> 'w st" where
  "get_uploaded_files_info B s =
     (case perform (info_call B) GET_info s of
        (Inr info, s') \<Rightarrow>
          (Returns (case files info of None \<Rightarrow> [] | Some fs \<Rightarrow> fs), s')
      | (Inl e, s') \<Rightarrow> (Returns [], s'))"

text \<open>The inner loop of \<^verbatim>\<open>delete_files_from_db\<close>, which breaks at the first match.\<close>

fun find_file_id :: "document list \<Rightarrow> string \<Rightarrow> pyval \<Rightarrow> pyval" where
  "find_file_id [] fname fid = fid"
| "find_file_id (f # rest) fname fid =
     (if filename f = fname then file_id f else find_file_id rest fname fid)"

text \<open>The outer loop, with the lists \<^verbatim>\<open>deleted\<close> and \<^verbatim>\<open>errors\<close> as accumulators.\<close>

fun delete_loop ::
    "'w backend \<Rightarrow> document list \<Rightarrow> string list \<Rightarrow> string list \<Rightarrow> string list \<Rightarrow>
       'w st \<Rightarrow> (string list \<times> string list) \<times> 'w st" where
  "delete_loop B files_info [] deleted errors s = ((deleted, errors), s)"
| "delete_loop B files_info (fname # rest) deleted errors s =
     (let fid = find_file_id files_info fname PNone in
      if truthy fid then
        (case perform (delete_call B fid) (DELETE_document fid) s of
           (None, s') \<Rightarrow> delete_loop B files_info rest (deleted @ [fname]) errors s'
         | (Some e, s') \<Rightarrow>
             delete_loop B files_info rest deleted
               (errors @ [fname @ '': '' @ str_exn e]) s')
      else
        delete_loop B files_info rest deleted (errors @ [fname @ '': Not found'']) s)"

text \<open>Lines 121 to 126: the message built from the two lists.\<close>

definition summary :: "string list \<Rightarrow> string list \<Rightarrow> string" where
  "summary deleted errors =
     (let msg0 = [];
          msg1 = (if deleted \<noteq> [] then msg0 @ ''Deleted: '' @ join '', '' deleted @ ''. ''
                  else msg0);
          msg2 = (if errors \<noteq> [] then msg1 @ ''Errors: '' @ join ''; '' errors else msg1)
      in if msg2 \<noteq> [] then msg2 else ''No files deleted.'')"

definition delete_files_from_db ::
    "'w backend \<Rightarrow> string list \<Rightarrow> 'w st \<Rightarrow> string outcome \<times> 'w st" where
  "delete_files_from_db B filenames s =
     (if filenames = [] then (Returns ''No files selected.'', s)
      else
        (case get_uploaded_files_info B s of
           (Raises e, s') \<Rightarrow> (Raises e, s')
         | (Returns files_info, s') \<Rightarrow>
             (case delete_loop B files_info filenames [] [] s' of
                ((deleted, errors), s'') \<Rightarrow> (Returns (summary deleted errors), s''))))"

definition get_filenames_list :: "'w backend \<Rightarrow> 'w st \<Rightarrow> string list outcome \<times> 'w st" where
  "get_filenames_list B s =
     (case get_uploaded_files_info B s of
        (Raises e, s') \<Rightarrow> (Raises e, s')
      | (Returns files_info, s') \<Rightarrow> (Returns (map filename files_info), s'))"

section \<open>The answer format as the specification words it\<close>

text \<open>
  The specification describes the block of sources as listing each distinct source
  filename. This second definition follows those words: every filename once, whichever
  of its occurrences is kept. It is compared with \<open>format_answer\<close>, which is the code.
\<close>

definition spec_format_answer :: "chat_reply \<Rightarrow> string" where
  "spec_format_answer result =
     (if sources result \<noteq> []
      then answer result @ ''\<newline>\<newline>Sources:\<newline>''
             @ join ''\<newline>''
                 (map (\<lambda>n. ''- '' @ n) (remdups (map source_filename (sources result))))
      else answer result)"

section \<open>Two sample backends\<close>

text \<open>
  A backend whose state is its index: the info call lists it, an upload adds a record,
  a delete removes the records with the identifier or answers 404, a chat turn cites
  every indexed document. It serves to run the client on concrete inputs.
\<close>

definition sample_backend :: "document list backend" where
  "sample_backend =
     \<lparr>info_call = (\<lambda>w. (Inr \<lparr>snapshot_status = ''ok'', files = Some w\<rparr>, w)),
      add_document_call =
        (\<lambda>n w. (Inr [(''status'', PStr ''success'')],
                 w @ [\<lparr>file_id = PStr n, filename = n\<rparr>])),
      delete_call =
        (\<lambda>fid w. if fid \<in> set (map file_id w)
                  then (None, filter (\<lambda>d. file_id d \<noteq> fid) w)
                  else (Some (RequestException ''404 Client Error: Not Found''), w)),
      chat_call =
        (\<lambda>q h w. (Inr \<lparr>answer = ''ok'',
                        sources = map (\<lambda>d. \<lparr>source_filename = filename d\<rparr>) w\<rparr>, w)),
      open_call = (\<lambda>p w. (None, w))\<rparr>"

text \<open>A backend that cannot be reached: every HTTP call raises a connection error.\<close>

definition offline_backend :: "unit backend" where
  "offline_backend =
     \<lparr>info_call = (\<lambda>w. (Inl (RequestException ''Connection refused''), w)),
      add_document_call = (\<lambda>n w. (Inl (RequestException ''Connection refused''), w)),
      delete_call = (\<lambda>fid w. (Some (RequestException ''Connection refused''), w)),
      chat_call = (\<lambda>q h w. (Inl (RequestException ''Connection refused''), w)),
      open_call = (\<lambda>p w. (None, w))\<rparr>"

section \<open>Short-circuits\<close>

text \<open>
  Claim C6. With an empty selection \<^verbatim>\<open>delete_files_from_db\<close> returns exactly
  \<^verbatim>\<open>"No files selected."\<close> and touches nothing: the world and the list of effects are
  the ones it was given, so neither the index fetch nor any delete request happened.
\<close>

theorem delete_nothing_selected:
  "delete_files_from_db B [] s = (Returns ''No files selected.'', s)"
  by (simp add: delete_files_from_db_def)

text \<open>
  Claim C7. With no file (\<^verbatim>\<open>file is None\<close>) \<^verbatim>\<open>upload_file\<close> returns exactly the dictionary
  with status \<^verbatim>\<open>"error"\<close> and message \<^verbatim>\<open>"No file selected"\<close>, and the state is unchanged:
  no HTTP call and no \<^verbatim>\<open>open\<close> of a local file.
\<close>

theorem upload_no_file:
  "upload_file B None s =
     (Returns (Inl \<lparr>status = ''error'', message = ''No file selected''\<rparr>), s)"
  by (simp add: upload_file_def)

section \<open>Chat session: the wire history and the error path\<close>

lemma api_history_loop_acc:
  "api_history_loop history acc =
     acc @ concat (map (\<lambda>(human, ai). [\<lparr>role = ''user'', content = human\<rparr>,
                                          \<lparr>role = ''assistant'', content = ai\<rparr>]) history)"
  by (induction history acc rule: api_history_loop.induct) simp_all

lemma pairs_length:
  "length (concat (map (\<lambda>(human, ai). [f human, g ai]) history)) = 2 * length history"
  by (induction history) auto

lemma pairs_nth:
  "i < length history \<Longrightarrow>
     concat (map (\<lambda>(human, ai). [f human, g ai]) history) ! (2 * i) = f (fst (history ! i)) \<and>
     concat (map (\<lambda>(human, ai). [f human, g ai]) history) ! (2 * i + 1) = g (snd (history ! i))"
proof (induction history arbitrary: i)
  case Nil
  then show ?case by simp
next
  case (Cons p ps)
  show ?case
  proof (cases i)
    case 0
    then show ?thesis by (cases p) simp
  next
    case (Suc k)
    with Cons.prems have "k < length ps" by simp
    from Cons.IH [OF this] Suc show ?thesis by (cases p) simp
  qed
qed

lemma chat_effects:
  "snd (snd (chat_with_documents B msg history (w, lg))) =
     lg @ [POST_chat msg (api_history_loop history [])]"
  by (simp add: chat_with_documents_def perform_def Let_def split: prod.splits sum.splits)

text \<open>
  Claim C2. Whatever the backend answers, a chat turn on a transcript of \<open>N\<close> pairs sends
  exactly one \<^verbatim>\<open>POST /chat\<close>, and the history in it has \<open>2 * N\<close> entries: entry \<open>2 * i\<close> has
  role \<^verbatim>\<open>"user"\<close> and the user text of pair \<open>i\<close>, entry \<open>2 * i + 1\<close> has role \<^verbatim>\<open>"assistant"\<close>
  and the assistant text of pair \<open>i\<close>.
\<close>

theorem wire_history_shape:
  "\<exists>wire. snd (snd (chat_with_documents B msg history (w, lg))) = lg @ [POST_chat msg wire] \<and>
      length wire = 2 * length history \<and>
      (\<forall>i<length history.
          wire ! (2 * i) = \<lparr>role = ''user'', content = fst (history ! i)\<rparr> \<and>
          wire ! (2 * i + 1) = \<lparr>role = ''assistant'', content = snd (history ! i)\<rparr>)"
proof (intro exI conjI allI impI)
  show "snd (snd (chat_with_documents B msg history (w, lg))) =
          lg @ [POST_chat msg (api_history_loop history [])]"
    by (rule chat_effects)
next
  show "length (api_history_loop history []) = 2 * length history"
    by (simp only: api_history_loop_acc append_Nil pairs_length)
next
  fix i assume "i < length history"
  then show "api_history_loop history [] ! (2 * i) =
               \<lparr>role = ''user'', content = fst (history ! i)\<rparr>"
    by (simp only: api_history_loop_acc append_Nil pairs_nth)
next
  fix i assume "i < length history"
  then show "api_history_loop history [] ! (2 * i + 1) =
               \<lparr>role = ''assistant'', content = snd (history ! i)\<rparr>"
    by (simp only: api_history_loop_acc append_Nil pairs_nth)
qed

theorem wire_history_shape_witness:
  "\<exists>wire. snd (snd (chat_with_documents offline_backend ''q3''
               [(''q1'', ''a1''), (''q2'', ''a2'')] ((), []))) = [POST_chat ''q3'' wire] \<and>
     length wire = 4 \<and>
     wire ! 0 = \<lparr>role = ''user'', content = ''q1''\<rparr> \<and>
     wire ! 1 = \<lparr>role = ''assistant'', content = ''a1''\<rparr> \<and>
     wire ! 2 = \<lparr>role = ''user'', content = ''q2''\<rparr> \<and>
     wire ! 3 = \<lparr>role = ''assistant'', content = ''a2''\<rparr>"
proof -
  let ?h = "[(''q1'', ''a1''), (''q2'', ''a2'')]"
  obtain wire where
    eff: "snd (snd (chat_with_documents offline_backend ''q3'' ?h ((), []))) =
            [] @ [POST_chat ''q3'' wire]"
    and len: "length wire = 2 * length ?h"
    and ent: "\<forall>i<length ?h. wire ! (2 * i) = \<lparr>role = ''user'', content = fst (?h ! i)\<rparr> \<and>
                wire ! (2 * i + 1) = \<lparr>role = ''assistant'', content = snd (?h ! i)\<rparr>"
    using wire_history_shape [of offline_backend "''q3''" ?h "()" "[]"] by blast
  have i0: "(0::nat) < length ?h" and i1: "(1::nat) < length ?h" by simp_all
  from ent [rule_format, OF i0] have e01:
    "wire ! 0 = \<lparr>role = ''user'', content = ''q1''\<rparr> \<and>
     wire ! 1 = \<lparr>role = ''assistant'', content = ''a1''\<rparr>" by simp
  from ent [rule_format, OF i1] have e23:
    "wire ! 2 = \<lparr>role = ''user'', content = ''q2''\<rparr> \<and>
     wire ! 3 = \<lparr>role = ''assistant'', content = ''a2''\<rparr>" by simp
  from len have l4: "length wire = 4" by simp
  from eff have eff': "snd (snd (chat_with_documents offline_backend ''q3'' ?h ((), []))) =
            [POST_chat ''q3'' wire]" by simp
  from eff' l4 e01 e23 show ?thesis by blast
qed

text \<open>
  Claim C3. When the chat call raises \<open>e\<close>, the handler returns the input transcript
  with the one pair \<^verbatim>\<open>(message, "Error: " + str(e))\<close> appended: the result is one longer
  than the input and begins with the input, so the user's message is kept.
\<close>

theorem chat_error_appends_pair:
  "chat_call B msg (api_history_loop history []) w = (Inl e, w') \<Longrightarrow>
     \<exists>t. fst (chat_with_documents B msg history (w, lg)) = Returns t \<and>
         t = history @ [(msg, ''Error: '' @ str_exn e)] \<and>
         length t = length history + 1 \<and>
         take (length history) t = history"
  by (simp add: chat_with_documents_def perform_def Let_def)

theorem chat_error_appends_pair_witness:
  "chat_call offline_backend ''hi'' (api_history_loop [(''q'', ''a'')] []) () =
     (Inl (RequestException ''Connection refused''), ()) \<and>
   fst (chat_with_documents offline_backend ''hi'' [(''q'', ''a'')] ((), [])) =
     Returns [(''q'', ''a''), (''hi'', ''Error: Connection refused'')]"
proof -
  have h: "chat_call offline_backend ''hi'' (api_history_loop [(''q'', ''a'')] []) () =
     (Inl (RequestException ''Connection refused''), ())"
    by (simp add: offline_backend_def)
  from chat_error_appends_pair [OF h, of "[]"] h show ?thesis by simp
qed

section \<open>Fetching the index\<close>

text \<open>
  Claim C8. When the info fetch raises \<open>e\<close> (a transport error, the \<^verbatim>\<open>HTTPError\<close> of
  \<^verbatim>\<open>raise_for_status\<close>, a body that does not decode), \<^verbatim>\<open>get_vector_db_info\<close> returns the
  dictionary with status \<^verbatim>\<open>"error"\<close> and message \<^verbatim>\<open>str(e)\<close>; and in every case it returns
  a value, it never raises.
\<close>

theorem info_fetch_failure_is_value:
  "(info_call B w = (Inl e, w') \<longrightarrow>
      get_vector_db_info B (w, lg) =
        (Returns (Inl \<lparr>status = ''error'', message = str_exn e\<rparr>), (w', lg @ [GET_info]))) \<and>
   (\<exists>v. fst (get_vector_db_info B (w, lg)) = Returns v)"
  by (auto simp: get_vector_db_info_def perform_def split: prod.splits sum.splits)

theorem info_fetch_failure_is_value_witness:
  "info_call offline_backend () = (Inl (RequestException ''Connection refused''), ()) \<and>
   get_vector_db_info offline_backend ((), []) =
     (Returns (Inl \<lparr>status = ''error'', message = ''Connection refused''\<rparr>), ((), [GET_info]))"
proof -
  have h: "info_call offline_backend () = (Inl (RequestException ''Connection refused''), ())"
    by (simp add: offline_backend_def)
  from info_fetch_failure_is_value
         [of offline_backend "()" "RequestException ''Connection refused''" "()" "[]"] h
  show ?thesis by simp
qed

text \<open>
  Claim C9. \<^verbatim>\<open>get_filenames_list\<close> returns the empty list when the fetch raises (a plain
  list: no error dictionary, no exception), and on a successful fetch the filenames of
  the records under \<^verbatim>\<open>"files"\<close>, in their order (none when the key is absent). Either
  way it makes the one GET request.
\<close>

theorem list_filenames_result:
  "(info_call B w = (Inl e, w') \<longrightarrow>
      get_filenames_list B (w, lg) = (Returns [], (w', lg @ [GET_info]))) \<and>
   (info_call B w = (Inr info, w') \<longrightarrow>
      get_filenames_list B (w, lg) =
        (Returns (map filename (case files info of None \<Rightarrow> [] | Some fs \<Rightarrow> fs)),
         (w', lg @ [GET_info])))"
  by (simp add: get_filenames_list_def get_uploaded_files_info_def perform_def)

theorem list_filenames_result_witness:
  "info_call offline_backend () = (Inl (RequestException ''Connection refused''), ()) \<and>
   get_filenames_list offline_backend ((), []) = (Returns [], ((), [GET_info])) \<and>
   info_call sample_backend
       [\<lparr>file_id = PStr ''7'', filename = ''b.pdf''\<rparr>,
        \<lparr>file_id = PStr ''3'', filename = ''a.pdf''\<rparr>] =
     (Inr \<lparr>snapshot_status = ''ok'',
           files = Some [\<lparr>file_id = PStr ''7'', filename = ''b.pdf''\<rparr>,
                         \<lparr>file_id = PStr ''3'', filename = ''a.pdf''\<rparr>]\<rparr>,
      [\<lparr>file_id = PStr ''7'', filename = ''b.pdf''\<rparr>,
       \<lparr>file_id = PStr ''3'', filename = ''a.pdf''\<rparr>]) \<and>
   fst (get_filenames_list sample_backend
       ([\<lparr>file_id = PStr ''7'', filename = ''b.pdf''\<rparr>,
         \<lparr>file_id = PStr ''3'', filename = ''a.pdf''\<rparr>], [])) =
     Returns [''b.pdf'', ''a.pdf'']"
proof -
  let ?w = "[\<lparr>file_id = PStr ''7'', filename = ''b.pdf''\<rparr>,
             \<lparr>file_id = PStr ''3'', filename = ''a.pdf''\<rparr>]"
  have h1: "info_call offline_backend () = (Inl (RequestException ''Connection refused''), ())"
    by (simp add: offline_backend_def)
  have h2: "info_call sample_backend ?w = (Inr \<lparr>snapshot_status = ''ok'', files = Some ?w\<rparr>, ?w)"
    by (simp add: sample_backend_def)
  from list_filenames_result
         [of offline_backend "()" "RequestException ''Connection refused''" "()" "[]"] h1
  have a: "get_filenames_list offline_backend ((), []) = (Returns [], ((), [GET_info]))"
    by simp
  from list_filenames_result
         [of sample_backend ?w _ ?w "[]" "\<lparr>snapshot_status = ''ok'', files = Some ?w\<rparr>"] h2
  have b: "fst (get_filenames_list sample_backend (?w, [])) = Returns [''b.pdf'', ''a.pdf'']"
    by simp
  from h1 a h2 b show ?thesis by simp
qed

section \<open>Chat session: the formatted answer\<close>

lemma join_lines:
  "xs \<noteq> [] \<Longrightarrow> sep @ join sep xs = concat (map (\<lambda>x. sep @ x) xs)"
  by (induction sep xs rule: join.induct) simp_all

lemma format_answer_lines:
  "format_answer result =
     (if sources result = [] then answer result
      else answer result @ ''\<newline>\<newline>Sources:''
             @ concat (map (\<lambda>s. ''\<newline>- '' @ source_filename s) (sources result)))"
proof (cases "sources result = []")
  case True
  then show ?thesis by (simp add: format_answer_def)
next
  case False
  then have ne: "map (\<lambda>s. ''- '' @ source_filename s) (sources result) \<noteq> []" by simp
  have "''\<newline>'' @ join ''\<newline>'' (map (\<lambda>s. ''- '' @ source_filename s) (sources result)) =
          concat (map (\<lambda>s. ''\<newline>- '' @ source_filename s) (sources result))"
    by (simp only: join_lines [OF ne]) (simp add: comp_def)
  with False show ?thesis by (simp add: format_answer_def)
qed

lemma format_answer_distinct:
  "distinct (map source_filename (sources result)) \<Longrightarrow>
     format_answer result = spec_format_answer result"
  by (simp add: format_answer_def spec_format_answer_def distinct_remdups_id comp_def)

text \<open>
  Claim C1, as amended. A chat turn whose call returns \<open>result\<close> appends the pair of the
  message and the formatted answer. With no source the formatted answer is the raw
  answer. With one or more sources it is the raw answer, a blank line, the line
  \<^verbatim>\<open>Sources:\<close> and then one line \<^verbatim>\<open>- <filename>\<close> per returned source, in the order of the
  reply: a filename cited by several sources is listed once per source. The block is the
  one of distinct filenames exactly when the filenames of the sources are pairwise
  distinct.
\<close>

theorem answer_format:
  "chat_call B msg (api_history_loop history []) w = (Inr result, w') \<Longrightarrow>
     \<exists>formatted.
        fst (chat_with_documents B msg history (w, lg)) =
          Returns (history @ [(msg, formatted)]) \<and>
        (sources result = [] \<longrightarrow> formatted = answer result) \<and>
        (sources result \<noteq> [] \<longrightarrow>
           formatted = answer result @ ''\<newline>\<newline>Sources:''
             @ concat (map (\<lambda>s. ''\<newline>- '' @ source_filename s) (sources result))) \<and>
        (distinct (map source_filename (sources result)) \<longrightarrow>
           formatted = spec_format_answer result)"
proof (intro exI conjI impI)
  assume "chat_call B msg (api_history_loop history []) w = (Inr result, w')"
  then show "fst (chat_with_documents B msg history (w, lg)) =
               Returns (history @ [(msg, format_answer result)])"
    by (simp add: chat_with_documents_def perform_def Let_def)
next
  assume "sources result = []"
  then show "format_answer result = answer result"
    by (simp add: format_answer_lines)
next
  assume "sources result \<noteq> []"
  then show "format_answer result = answer result @ ''\<newline>\<newline>Sources:''
             @ concat (map (\<lambda>s. ''\<newline>- '' @ source_filename s) (sources result))"
    by (simp add: format_answer_lines)
next
  assume "distinct (map source_filename (sources result))"
  then show "format_answer result = spec_format_answer result"
    by (rule format_answer_distinct)
qed

theorem answer_format_witness:
  "chat_call sample_backend ''hi'' (api_history_loop [] [])
       [\<lparr>file_id = PStr ''1'', filename = ''a.pdf''\<rparr>,
        \<lparr>file_id = PStr ''2'', filename = ''b.pdf''\<rparr>] =
     (Inr \<lparr>answer = ''ok'',
           sources = [\<lparr>source_filename = ''a.pdf''\<rparr>, \<lparr>source_filename = ''b.pdf''\<rparr>]\<rparr>,
      [\<lparr>file_id = PStr ''1'', filename = ''a.pdf''\<rparr>,
       \<lparr>file_id = PStr ''2'', filename = ''b.pdf''\<rparr>]) \<and>
   fst (chat_with_documents sample_backend ''hi'' []
          ([\<lparr>file_id = PStr ''1'', filename = ''a.pdf''\<rparr>,
            \<lparr>file_id = PStr ''2'', filename = ''b.pdf''\<rparr>], [])) =
     Returns [(''hi'', ''ok\<newline>\<newline>Sources:\<newline>- a.pdf\<newline>- b.pdf'')] \<and>
   chat_call sample_backend ''hi'' (api_history_loop [] []) [] =
     (Inr \<lparr>answer = ''ok'', sources = []\<rparr>, []) \<and>
   fst (chat_with_documents sample_backend ''hi'' [] ([], [])) = Returns [(''hi'', ''ok'')]"
proof -
  let ?w = "[\<lparr>file_id = PStr ''1'', filename = ''a.pdf''\<rparr>,
             \<lparr>file_id = PStr ''2'', filename = ''b.pdf''\<rparr>]"
  let ?r = "\<lparr>answer = ''ok'',
             sources = [\<lparr>source_filename = ''a.pdf''\<rparr>, \<lparr>source_filename = ''b.pdf''\<rparr>]\<rparr>"
  have h1: "chat_call sample_backend ''hi'' (api_history_loop [] []) ?w = (Inr ?r, ?w)"
    by (simp add: sample_backend_def)
  have h2: "chat_call sample_backend ''hi'' (api_history_loop [] []) [] =
              (Inr \<lparr>answer = ''ok'', sources = []\<rparr>, [])"
    by (simp add: sample_backend_def)
  from answer_format [OF h1, of "[]"]
  have a: "fst (chat_with_documents sample_backend ''hi'' [] (?w, [])) =
             Returns [(''hi'', ''ok\<newline>\<newline>Sources:\<newline>- a.pdf\<newline>- b.pdf'')]"
    by auto
  from answer_format [OF h2, of "[]"]
  have b: "fst (chat_with_documents sample_backend ''hi'' [] ([], [])) = Returns [(''hi'', ''ok'')]"
    by auto
  from h1 a h2 b show ?thesis by simp
qed

text \<open>
  Claim C1 as stated fails: the code does not remove duplicates. A reply that cites
  \<^verbatim>\<open>a.pdf\<close> twice gives two lines \<^verbatim>\<open>- a.pdf\<close>, where the block of distinct filenames has
  one.
\<close>

theorem sources_block_repeats_duplicates:
  "fst (chat_with_documents sample_backend ''hi'' []
          ([\<lparr>file_id = PStr ''1'', filename = ''a.pdf''\<rparr>,
            \<lparr>file_id = PStr ''2'', filename = ''a.pdf''\<rparr>], [])) =
     Returns [(''hi'', ''ok\<newline>\<newline>Sources:\<newline>- a.pdf\<newline>- a.pdf'')] \<and>
   spec_format_answer
       \<lparr>answer = ''ok'',
        sources = [\<lparr>source_filename = ''a.pdf''\<rparr>, \<lparr>source_filename = ''a.pdf''\<rparr>]\<rparr> =
     ''ok\<newline>\<newline>Sources:\<newline>- a.pdf'' \<and>
   format_answer
       \<lparr>answer = ''ok'',
        sources = [\<lparr>source_filename = ''a.pdf''\<rparr>, \<lparr>source_filename = ''a.pdf''\<rparr>]\<rparr> \<noteq>
   spec_format_answer
       \<lparr>answer = ''ok'',
        sources = [\<lparr>source_filename = ''a.pdf''\<rparr>, \<lparr>source_filename = ''a.pdf''\<rparr>]\<rparr>"
  by (simp add: chat_with_documents_def perform_def sample_backend_def format_answer_def
        spec_format_answer_def)

section \<open>File registry view: deleting by filename\<close>

lemma find_file_id_first:
  "i < length fs \<Longrightarrow> filename (fs ! i) = fname \<Longrightarrow> \<forall>j<i. filename (fs ! j) \<noteq> fname \<Longrightarrow>
     find_file_id fs fname fid = file_id (fs ! i)"
proof (induction fs arbitrary: i)
  case Nil
  then show ?case by simp
next
  case (Cons f rest)
  show ?case
  proof (cases i)
    case 0
    with Cons.prems show ?thesis by simp
  next
    case (Suc k)
    with Cons.prems have k: "k < length rest" "filename (rest ! k) = fname" by simp_all
    from Cons.prems(3) Suc have "filename ((f # rest) ! 0) \<noteq> fname" by blast
    then have f: "filename f \<noteq> fname" by simp
    have "\<forall>j<k. filename (rest ! j) \<noteq> fname"
    proof (intro allI impI)
      fix j assume "j < k"
      then have "Suc j < i" using Suc by simp
      with Cons.prems(3) have "filename ((f # rest) ! Suc j) \<noteq> fname" by blast
      then show "filename (rest ! j) \<noteq> fname" by simp
    qed
    from Cons.IH [OF k this] f Suc show ?thesis by simp
  qed
qed

lemma find_file_id_other:
  "g \<noteq> fname \<Longrightarrow>
     find_file_id (filter (\<lambda>f. filename f \<noteq> fname) fs) g fid = find_file_id fs g fid"
  by (induction fs) auto

lemma find_file_id_removed:
  "find_file_id (filter (\<lambda>f. filename f \<noteq> fname) fs) fname fid = fid"
  by (induction fs) auto

lemma delete_loop_effects:
  "snd (snd (delete_loop B fs names deleted errors (w, lg))) =
     lg @ map DELETE_document (filter truthy (map (\<lambda>n. find_file_id fs n PNone) names))"
proof (induction names arbitrary: deleted errors w lg)
  case Nil
  then show ?case by simp
next
  case (Cons n rest)
  show ?case
  proof (cases "truthy (find_file_id fs n PNone)")
    case False
    with Cons.IH show ?thesis by simp
  next
    case True
    obtain r w1 where call: "delete_call B (find_file_id fs n PNone) w = (r, w1)"
      by (cases "delete_call B (find_file_id fs n PNone) w")
    with True Cons.IH show ?thesis
      by (cases r) (simp_all add: perform_def Let_def)
  qed
qed

lemma delete_loop_lists:
  "delete_loop B fs names deleted errors s = ((deleted', errors'), s') \<Longrightarrow>
     \<exists>d e. deleted' = deleted @ d \<and> errors' = errors @ e \<and>
           length d + length e = length names \<and> subseq d names"
proof (induction names arbitrary: deleted errors s)
  case Nil
  then show ?case by simp
next
  case (Cons n rest)
  show ?case
  proof (cases "truthy (find_file_id fs n PNone)")
    case False
    with Cons.prems have
      "delete_loop B fs rest deleted (errors @ [n @ '': Not found'']) s = ((deleted', errors'), s')"
      by simp
    from Cons.IH [OF this] obtain d e where
      "deleted' = deleted @ d" "errors' = (errors @ [n @ '': Not found'']) @ e"
      "length d + length e = length rest" "subseq d rest" by blast
    then have "deleted' = deleted @ d \<and> errors' = errors @ ((n @ '': Not found'') # e) \<and>
        length d + length ((n @ '': Not found'') # e) = length (n # rest) \<and> subseq d (n # rest)"
      by (simp add: list_emb_Cons)
    then show ?thesis by blast
  next
    case True
    obtain r s1 where call:
      "perform (delete_call B (find_file_id fs n PNone))
         (DELETE_document (find_file_id fs n PNone)) s = (r, s1)"
      by (cases "perform (delete_call B (find_file_id fs n PNone))
                   (DELETE_document (find_file_id fs n PNone)) s")
    show ?thesis
    proof (cases r)
      case None
      with True call Cons.prems have
        "delete_loop B fs rest (deleted @ [n]) errors s1 = ((deleted', errors'), s')"
        by (simp add: Let_def)
      from Cons.IH [OF this] obtain d e where
        "deleted' = (deleted @ [n]) @ d" "errors' = errors @ e"
        "length d + length e = length rest" "subseq d rest" by blast
      then have "deleted' = deleted @ (n # d) \<and> errors' = errors @ e \<and>
          length (n # d) + length e = length (n # rest) \<and> subseq (n # d) (n # rest)"
        by simp
      then show ?thesis by blast
    next
      case (Some ex)
      with True call Cons.prems have
        "delete_loop B fs rest deleted (errors @ [n @ '': '' @ str_exn ex]) s1 =
           ((deleted', errors'), s')"
        by (simp add: Let_def)
      from Cons.IH [OF this] obtain d e where
        "deleted' = deleted @ d" "errors' = (errors @ [n @ '': '' @ str_exn ex]) @ e"
        "length d + length e = length rest" "subseq d rest" by blast
      then have "deleted' = deleted @ d \<and> errors' = errors @ ((n @ '': '' @ str_exn ex) # e) \<and>
          length d + length ((n @ '': '' @ str_exn ex) # e) = length (n # rest) \<and>
          subseq d (n # rest)"
        by (simp add: list_emb_Cons)
      then show ?thesis by blast
    qed
  qed
qed

lemma summary_clauses:
  "summary deleted errors =
     (if deleted = [] \<and> errors = [] then ''No files deleted.''
      else (if deleted = [] then [] else ''Deleted: '' @ join '', '' deleted @ ''. '')
           @ (if errors = [] then [] else ''Errors: '' @ join ''; '' errors))"
  by (simp add: summary_def Let_def)

lemma join_in: "x \<in> set xs \<Longrightarrow> sublist x (join sep xs)"
proof (induction sep xs rule: join.induct)
  case (3 sep a b ys)
  show ?case
  proof (cases "x = a")
    case True
    then show ?thesis by simp
  next
    case False
    with 3 have "sublist x (join sep (b # ys))" by simp
    then obtain ps ss where "join sep (b # ys) = ps @ x @ ss" by (auto simp: sublist_def)
    then have "join sep (a # b # ys) = (a @ sep @ ps) @ x @ ss" by simp
    then show ?thesis unfolding sublist_def by blast
  qed
qed simp_all

lemma fetch_ok:
  "info_call B w = (Inr info, w1) \<Longrightarrow> files info = Some fs \<Longrightarrow>
     get_uploaded_files_info B (w, lg) = (Returns fs, (w1, lg @ [GET_info]))"
  by (simp add: get_uploaded_files_info_def perform_def)

lemma delete_loop_filter:
  "\<not> truthy (find_file_id fs fname PNone) \<Longrightarrow>
     delete_loop B (filter (\<lambda>f. filename f \<noteq> fname) fs) names deleted errors s =
     delete_loop B fs names deleted errors s"
proof (induction names arbitrary: deleted errors s)
  case Nil
  then show ?case by simp
next
  case (Cons n rest)
  show ?case
  proof (cases "n = fname")
    case True
    with Cons show ?thesis by (simp add: find_file_id_removed)
  next
    case False
    with Cons show ?thesis
      by (simp add: find_file_id_other Let_def split: prod.splits option.splits)
  qed
qed

lemma delete_loop_not_found:
  "delete_loop B fs names deleted errors s = ((deleted', errors'), s') \<Longrightarrow>
     n \<in> set names \<Longrightarrow> \<not> truthy (find_file_id fs n PNone) \<Longrightarrow>
     (n @ '': Not found'') \<in> set errors'"
proof (induction names arbitrary: deleted errors s)
  case Nil
  then show ?case by simp
next
  case (Cons m rest)
  show ?case
  proof (cases "n = m")
    case True
    with Cons.prems have
      "delete_loop B fs rest deleted (errors @ [n @ '': Not found'']) s = ((deleted', errors'), s')"
      by simp
    from delete_loop_lists [OF this] show ?thesis by auto
  next
    case False
    with Cons.prems have n: "n \<in> set rest" by simp
    show ?thesis
    proof (cases "truthy (find_file_id fs m PNone)")
      case False
      with Cons.prems have
        "delete_loop B fs rest deleted (errors @ [m @ '': Not found'']) s = ((deleted', errors'), s')"
        by simp
      from Cons.IH [OF this n Cons.prems(3)] show ?thesis .
    next
      case True
      obtain r s1 where call:
        "perform (delete_call B (find_file_id fs m PNone))
           (DELETE_document (find_file_id fs m PNone)) s = (r, s1)"
        by (cases "perform (delete_call B (find_file_id fs m PNone))
                     (DELETE_document (find_file_id fs m PNone)) s")
      show ?thesis
      proof (cases r)
        case None
        with True call Cons.prems have
          "delete_loop B fs rest (deleted @ [m]) errors s1 = ((deleted', errors'), s')"
          by (simp add: Let_def)
        from Cons.IH [OF this n Cons.prems(3)] show ?thesis .
      next
        case (Some ex)
        with True call Cons.prems have
          "delete_loop B fs rest deleted (errors @ [m @ '': '' @ str_exn ex]) s1 =
             ((deleted', errors'), s')"
          by (simp add: Let_def)
        from Cons.IH [OF this n Cons.prems(3)] show ?thesis .
      qed
    qed
  qed
qed

lemma summary_has_error:
  "x \<in> set errors \<Longrightarrow> sublist ''Errors: '' (summary deleted errors) \<and> sublist x (summary deleted errors)"
proof -
  assume x: "x \<in> set errors"
  then have ne: "errors \<noteq> []" by auto
  let ?d = "if deleted = [] then [] else ''Deleted: '' @ join '', '' deleted @ ''. ''"
  from ne have s: "summary deleted errors = ?d @ ''Errors: '' @ join ''; '' errors"
    by (simp add: summary_clauses)
  have a: "sublist ''Errors: '' (?d @ ''Errors: '' @ join ''; '' errors)"
    by (rule sublist_appendI)
  from join_in [OF x, of "''; ''"] obtain ps ss where "join ''; '' errors = ps @ x @ ss"
    unfolding sublist_def by blast
  then have "?d @ ''Errors: '' @ join ''; '' errors = (?d @ ''Errors: '' @ ps) @ x @ ss"
    by simp
  then have b: "sublist x (?d @ ''Errors: '' @ join ''; '' errors)"
    unfolding sublist_def by blast
  from a b s show ?thesis by simp
qed

lemma delete_effects:
  "filenames \<noteq> [] \<Longrightarrow> info_call B w = (Inr info, w1) \<Longrightarrow> files info = Some fs \<Longrightarrow>
     snd (snd (delete_files_from_db B filenames (w, lg))) =
       lg @ GET_info #
         map DELETE_document (filter truthy (map (\<lambda>n. find_file_id fs n PNone) filenames))"
proof -
  assume ne: "filenames \<noteq> []" and i: "info_call B w = (Inr info, w1)" and f: "files info = Some fs"
  obtain d e s2 where loop: "delete_loop B fs filenames [] [] (w1, lg @ [GET_info]) = ((d, e), s2)"
    by (metis surj_pair)
  from delete_loop_effects [of B fs filenames "[]" "[]" w1 "lg @ [GET_info]"] loop
  have "snd s2 = (lg @ [GET_info]) @
          map DELETE_document (filter truthy (map (\<lambda>n. find_file_id fs n PNone) filenames))"
    by simp
  with ne loop fetch_ok [OF i f, of lg] show ?thesis
    by (simp add: delete_files_from_db_def)
qed

lemma filter_truthy_skip:
  "\<not> truthy (f x) \<Longrightarrow>
     filter truthy (map f xs) = filter truthy (map f (filter (\<lambda>n. n \<noteq> x) xs))"
  by (induction xs) auto

lemma upt_0_Suc_shift: "[0..<Suc m] = 0 # map Suc [0..<m]"
  by (simp only: map_Suc_upt) (simp add: upt_conv_Cons del: upt_Suc)

lemma index_shift:
  "map f (filter P [0..<Suc m]) =
     (if P 0 then [f 0] else []) @ map (\<lambda>k. f (Suc k)) (filter (\<lambda>k. P (Suc k)) [0..<m])"
  by (simp add: upt_0_Suc_shift filter_map comp_def del: upt_Suc)

lemma delete_loop_step:
  "delete_loop B fs (n # rest) d e (w, lg) =
     delete_loop B fs rest
       (d @ (if truthy (find_file_id fs n PNone) \<and>
                fst (delete_call B (find_file_id fs n PNone) w) = None then [n] else []))
       (e @ (if truthy (find_file_id fs n PNone) \<and>
                fst (delete_call B (find_file_id fs n PNone) w) = None then []
             else [n @ '': '' @
                     (if truthy (find_file_id fs n PNone)
                      then (case fst (delete_call B (find_file_id fs n PNone) w) of
                              Some ex \<Rightarrow> str_exn ex | None \<Rightarrow> [])
                      else ''Not found'')]))
       (if truthy (find_file_id fs n PNone)
        then snd (delete_call B (find_file_id fs n PNone) w) else w,
        lg @ (if truthy (find_file_id fs n PNone)
              then [DELETE_document (find_file_id fs n PNone)] else []))"
proof (cases "truthy (find_file_id fs n PNone)")
  case False
  then show ?thesis by simp
next
  case True
  obtain r w' where call: "delete_call B (find_file_id fs n PNone) w = (r, w')"
    by (cases "delete_call B (find_file_id fs n PNone) w")
  with True show ?thesis
    by (cases r) (simp_all add: perform_def Let_def)
qed

lemma delete_loop_trace:
  "\<exists>ws. length ws = Suc (length names) \<and> ws ! 0 = w \<and>
     (\<forall>k<length names.
        ws ! Suc k =
          (if truthy (find_file_id fs (names ! k) PNone)
           then snd (delete_call B (find_file_id fs (names ! k) PNone) (ws ! k))
           else ws ! k)) \<and>
     delete_loop B fs names d e (w, lg) =
       ((d @ map (\<lambda>k. names ! k)
               (filter (\<lambda>k. truthy (find_file_id fs (names ! k) PNone) \<and>
                            fst (delete_call B (find_file_id fs (names ! k) PNone) (ws ! k)) = None)
                  [0..<length names]),
         e @ map (\<lambda>k. names ! k @ '': '' @
                       (if truthy (find_file_id fs (names ! k) PNone)
                        then (case fst (delete_call B (find_file_id fs (names ! k) PNone) (ws ! k)) of
                                Some ex \<Rightarrow> str_exn ex | None \<Rightarrow> [])
                        else ''Not found''))
               (filter (\<lambda>k. \<not> (truthy (find_file_id fs (names ! k) PNone) \<and>
                            fst (delete_call B (find_file_id fs (names ! k) PNone) (ws ! k)) = None))
                  [0..<length names])),
        (ws ! length names,
         lg @ map DELETE_document (filter truthy (map (\<lambda>n. find_file_id fs n PNone) names))))"
proof (induction names arbitrary: d e w lg)
  case Nil
  have "length [w] = Suc (length ([]::string list)) \<and> [w] ! 0 = w" by simp
  then show ?case by (intro exI [of _ "[w]"]) simp
next
  case (Cons n rest)
  let ?fid = "find_file_id fs n PNone"
  let ?ok = "truthy ?fid \<and> fst (delete_call B ?fid w) = None"
  let ?d1 = "d @ (if ?ok then [n] else [])"
  let ?e1 = "e @ (if ?ok then []
             else [n @ '': '' @
                     (if truthy ?fid
                      then (case fst (delete_call B ?fid w) of
                              Some ex \<Rightarrow> str_exn ex | None \<Rightarrow> [])
                      else ''Not found'')])"
  let ?w1 = "if truthy ?fid then snd (delete_call B ?fid w) else w"
  let ?lg1 = "lg @ (if truthy ?fid then [DELETE_document ?fid] else [])"
  from Cons.IH [of ?w1 ?d1 ?e1 ?lg1] obtain ws' where
    len: "length ws' = Suc (length rest)" and w0: "ws' ! 0 = ?w1"
    and steps: "\<forall>k<length rest.
        ws' ! Suc k =
          (if truthy (find_file_id fs (rest ! k) PNone)
           then snd (delete_call B (find_file_id fs (rest ! k) PNone) (ws' ! k))
           else ws' ! k)"
    and res: "delete_loop B fs rest ?d1 ?e1 (?w1, ?lg1) =
       ((?d1 @ map (\<lambda>k. rest ! k)
               (filter (\<lambda>k. truthy (find_file_id fs (rest ! k) PNone) \<and>
                            fst (delete_call B (find_file_id fs (rest ! k) PNone) (ws' ! k)) = None)
                  [0..<length rest]),
         ?e1 @ map (\<lambda>k. rest ! k @ '': '' @
                       (if truthy (find_file_id fs (rest ! k) PNone)
                        then (case fst (delete_call B (find_file_id fs (rest ! k) PNone) (ws' ! k)) of
                                Some ex \<Rightarrow> str_exn ex | None \<Rightarrow> [])
                        else ''Not found''))
               (filter (\<lambda>k. \<not> (truthy (find_file_id fs (rest ! k) PNone) \<and>
                            fst (delete_call B (find_file_id fs (rest ! k) PNone) (ws' ! k)) = None))
                  [0..<length rest])),
        (ws' ! length rest,
         ?lg1 @ map DELETE_document (filter truthy (map (\<lambda>n. find_file_id fs n PNone) rest))))"
    by blast
  let ?ws = "w # ws'"
  have a: "length ?ws = Suc (length (n # rest))" using len by simp
  have b: "?ws ! 0 = w" by simp
  have c: "\<forall>k<length (n # rest).
        ?ws ! Suc k =
          (if truthy (find_file_id fs ((n # rest) ! k) PNone)
           then snd (delete_call B (find_file_id fs ((n # rest) ! k) PNone) (?ws ! k))
           else ?ws ! k)"
  proof (intro allI impI)
    fix k assume k: "k < length (n # rest)"
    show "?ws ! Suc k =
          (if truthy (find_file_id fs ((n # rest) ! k) PNone)
           then snd (delete_call B (find_file_id fs ((n # rest) ! k) PNone) (?ws ! k))
           else ?ws ! k)"
    proof (cases k)
      case 0
      with w0 show ?thesis by simp
    next
      case (Suc j)
      with k have "j < length rest" by simp
      with steps Suc show ?thesis by simp
    qed
  qed
  have d: "delete_loop B fs (n # rest) d e (w, lg) =
       ((d @ map (\<lambda>k. (n # rest) ! k)
               (filter (\<lambda>k. truthy (find_file_id fs ((n # rest) ! k) PNone) \<and>
                            fst (delete_call B (find_file_id fs ((n # rest) ! k) PNone) (?ws ! k)) = None)
                  [0..<length (n # rest)]),
         e @ map (\<lambda>k. (n # rest) ! k @ '': '' @
                       (if truthy (find_file_id fs ((n # rest) ! k) PNone)
                        then (case fst (delete_call B (find_file_id fs ((n # rest) ! k) PNone) (?ws ! k)) of
                                Some ex \<Rightarrow> str_exn ex | None \<Rightarrow> [])
                        else ''Not found''))
               (filter (\<lambda>k. \<not> (truthy (find_file_id fs ((n # rest) ! k) PNone) \<and>
                            fst (delete_call B (find_file_id fs ((n # rest) ! k) PNone) (?ws ! k)) = None))
                  [0..<length (n # rest)])),
        (?ws ! length (n # rest),
         lg @ map DELETE_document
                (filter truthy (map (\<lambda>n. find_file_id fs n PNone) (n # rest)))))"
    unfolding delete_loop_step res
    by (simp add: index_shift del: upt_Suc delete_loop.simps)
  from a b c d show ?case by blast
qed

lemma join_hd_tl:
  "xs \<noteq> [] \<Longrightarrow> join sep xs = hd xs @ concat (map (\<lambda>x. sep @ x) (tl xs))"
  by (induction sep xs rule: join.induct) simp_all

lemma append_cons_fun: "(@) (a # as) = (\<lambda>x. a # (as @ x))"
  by (rule ext) simp

lemma append_nil_fun: "(@) [] = (\<lambda>x. x)"
  by (rule ext) simp

lemma summary_explicit:
  "summary deleted errors =
     (if deleted = [] \<and> errors = [] then ''No files deleted.''
      else (if deleted = [] then []
            else ''Deleted: '' @ hd deleted @ concat (map (\<lambda>n. '', '' @ n) (tl deleted)) @ ''. '')
           @ (if errors = [] then []
              else ''Errors: '' @ hd errors @ concat (map (\<lambda>x. ''; '' @ x) (tl errors))))"
  by (simp add: summary_def Let_def join_hd_tl append_cons_fun append_nil_fun)

lemma fetch_any:
  "info_call B w = (r, w1) \<Longrightarrow>
     get_uploaded_files_info B (w, lg) =
       (Returns (case r of Inl ex \<Rightarrow> []
                 | Inr info \<Rightarrow> (case files info of None \<Rightarrow> [] | Some xs \<Rightarrow> xs)),
        (w1, lg @ [GET_info]))"
  by (cases r) (simp_all add: get_uploaded_files_info_def perform_def)

text \<open>
  Claim C4. The message of lines 121 to 126 is built from the two lists: the clause
  \<^verbatim>\<open>Deleted: \<close> with the deleted filenames separated by \<^verbatim>\<open>, \<close> and closed by \<^verbatim>\<open>. \<close>, then
  the clause \<^verbatim>\<open>Errors: \<close> with the failures separated by \<^verbatim>\<open>; \<close>; a clause whose list is
  empty is left out, and the message is \<^verbatim>\<open>No files deleted.\<close> when both lists are empty.

  For a non-empty selection the two lists are determined item by item. Let \<open>ws ! k\<close> be
  the world in which item \<open>k\<close> is handled: the world after the index fetch for the first
  item, and afterwards the world left by the delete call of the previous item (unchanged
  when that item issued none). Item \<open>k\<close> is listed under Deleted exactly when its resolved
  identifier is truthy and the delete call in \<open>ws ! k\<close> did not raise; every other item is
  listed under Errors as \<^verbatim>\<open><filename>: <text>\<close>, the text being \<^verbatim>\<open>str(e)\<close> of the exception of
  its delete call, or \<^verbatim>\<open>Not found\<close> when no call was made. Both lists keep the order of
  the selection and together they hold every selected item once, so for a non-empty
  selection they are never both empty. The call returns the message of these two lists,
  the final world and the requests it made.

  For the selection \<^verbatim>\<open>["a.pdf", "missing.pdf"]\<close>, an index that holds only \<^verbatim>\<open>a.pdf\<close> and a
  delete call that succeeds, the message is
  \<^verbatim>\<open>Deleted: a.pdf. Errors: missing.pdf: Not found\<close>, which contains both clauses of the
  claim.
\<close>

theorem delete_summary:
  "summary deleted errors =
     (if deleted = [] \<and> errors = [] then ''No files deleted.''
      else (if deleted = [] then []
            else ''Deleted: '' @ hd deleted @ concat (map (\<lambda>n. '', '' @ n) (tl deleted)) @ ''. '')
           @ (if errors = [] then []
              else ''Errors: '' @ hd errors @ concat (map (\<lambda>x. ''; '' @ x) (tl errors)))) \<and>
   (filenames \<noteq> [] \<and> info_call B w = (r, w1) \<and>
    fs = (case r of Inl ex \<Rightarrow> []
          | Inr info \<Rightarrow> (case files info of None \<Rightarrow> [] | Some xs \<Rightarrow> xs)) \<longrightarrow>
      (\<exists>ws ds es.
          length ws = Suc (length filenames) \<and> ws ! 0 = w1 \<and>
          (\<forall>k<length filenames.
             ws ! Suc k =
               (if truthy (find_file_id fs (filenames ! k) PNone)
                then snd (delete_call B (find_file_id fs (filenames ! k) PNone) (ws ! k))
                else ws ! k)) \<and>
          ds = map (\<lambda>k. filenames ! k)
                 (filter (\<lambda>k. truthy (find_file_id fs (filenames ! k) PNone) \<and>
                     fst (delete_call B (find_file_id fs (filenames ! k) PNone) (ws ! k)) = None)
                    [0..<length filenames]) \<and>
          es = map (\<lambda>k. filenames ! k @ '': '' @
                     (if truthy (find_file_id fs (filenames ! k) PNone)
                      then (case fst (delete_call B (find_file_id fs (filenames ! k) PNone)
                                        (ws ! k)) of
                              Some ex \<Rightarrow> str_exn ex | None \<Rightarrow> [])
                      else ''Not found''))
                 (filter (\<lambda>k. \<not> (truthy (find_file_id fs (filenames ! k) PNone) \<and>
                     fst (delete_call B (find_file_id fs (filenames ! k) PNone) (ws ! k)) = None))
                    [0..<length filenames]) \<and>
          length ds + length es = length filenames \<and>
          delete_files_from_db B filenames (w, lg) =
            (Returns
               ((if ds = [] then []
                 else ''Deleted: '' @ hd ds @ concat (map (\<lambda>n. '', '' @ n) (tl ds)) @ ''. '')
                @ (if es = [] then []
                   else ''Errors: '' @ hd es @ concat (map (\<lambda>x. ''; '' @ x) (tl es)))),
             (ws ! length filenames,
              lg @ GET_info #
                map DELETE_document
                  (filter truthy (map (\<lambda>n. find_file_id fs n PNone) filenames)))))) \<and>
   (info_call B w = (Inr info, w1) \<and>
    files info = Some [\<lparr>file_id = fid, filename = ''a.pdf''\<rparr>] \<and>
    truthy fid \<and> delete_call B fid w1 = (None, w2) \<longrightarrow>
      (\<exists>msg. delete_files_from_db B [''a.pdf'', ''missing.pdf''] (w, lg) =
                (Returns msg, (w2, lg @ [GET_info, DELETE_document fid])) \<and>
             msg = ''Deleted: a.pdf. Errors: missing.pdf: Not found'' \<and>
             sublist ''Deleted: a.pdf'' msg \<and>
             sublist ''Errors: missing.pdf: Not found'' msg))"
proof (intro conjI impI)
  show "summary deleted errors =
     (if deleted = [] \<and> errors = [] then ''No files deleted.''
      else (if deleted = [] then []
            else ''Deleted: '' @ hd deleted @ concat (map (\<lambda>n. '', '' @ n) (tl deleted)) @ ''. '')
           @ (if errors = [] then []
              else ''Errors: '' @ hd errors @ concat (map (\<lambda>x. ''; '' @ x) (tl errors))))"
    by (rule summary_explicit)
next
  assume h: "filenames \<noteq> [] \<and> info_call B w = (r, w1) \<and>
    fs = (case r of Inl ex \<Rightarrow> []
          | Inr info \<Rightarrow> (case files info of None \<Rightarrow> [] | Some xs \<Rightarrow> xs))"
  then have ne: "filenames \<noteq> []" and call: "info_call B w = (r, w1)"
    and fs: "fs = (case r of Inl ex \<Rightarrow> []
          | Inr info \<Rightarrow> (case files info of None \<Rightarrow> [] | Some xs \<Rightarrow> xs))"
    by simp_all
  from fetch_any [OF call, of lg] fs
  have fetch: "get_uploaded_files_info B (w, lg) = (Returns fs, (w1, lg @ [GET_info]))"
    by simp
  let ?ok = "\<lambda>ws k. truthy (find_file_id fs (filenames ! k) PNone) \<and>
     fst (delete_call B (find_file_id fs (filenames ! k) PNone) (ws ! k)) = None"
  let ?D = "\<lambda>ws. map (\<lambda>k. filenames ! k) (filter (?ok ws) [0..<length filenames])"
  let ?E = "\<lambda>ws. map (\<lambda>k. filenames ! k @ '': '' @
                     (if truthy (find_file_id fs (filenames ! k) PNone)
                      then (case fst (delete_call B (find_file_id fs (filenames ! k) PNone)
                                        (ws ! k)) of
                              Some ex \<Rightarrow> str_exn ex | None \<Rightarrow> [])
                      else ''Not found''))
                 (filter (\<lambda>k. \<not> ?ok ws k) [0..<length filenames])"
  from delete_loop_trace [of filenames w1 fs B "[]" "[]" "lg @ [GET_info]"]
  obtain ws where
    len: "length ws = Suc (length filenames)" and w0: "ws ! 0 = w1"
    and steps: "\<forall>k<length filenames.
             ws ! Suc k =
               (if truthy (find_file_id fs (filenames ! k) PNone)
                then snd (delete_call B (find_file_id fs (filenames ! k) PNone) (ws ! k))
                else ws ! k)"
    and loop: "delete_loop B fs filenames [] [] (w1, lg @ [GET_info]) =
       (([] @ ?D ws, [] @ ?E ws),
        (ws ! length filenames,
         (lg @ [GET_info]) @
           map DELETE_document (filter truthy (map (\<lambda>n. find_file_id fs n PNone) filenames))))"
    by blast
  have "length (filter (?ok ws) [0..<length filenames]) +
        length (filter (\<lambda>k. \<not> ?ok ws k) [0..<length filenames]) =
        length [0..<length filenames]"
    by (rule sum_length_filter_compl)
  then have cnt: "length (?D ws) + length (?E ws) = length filenames"
    by (simp del: upt_Suc)
  then have some: "\<not> (?D ws = [] \<and> ?E ws = [])" using ne by auto
  from ne fetch loop have
    "delete_files_from_db B filenames (w, lg) =
       (Returns (summary (?D ws) (?E ws)),
        (ws ! length filenames,
         lg @ GET_info #
           map DELETE_document (filter truthy (map (\<lambda>n. find_file_id fs n PNone) filenames))))"
    by (simp add: delete_files_from_db_def del: upt_Suc)
  also have "summary (?D ws) (?E ws) =
      (if ?D ws = [] then []
       else ''Deleted: '' @ hd (?D ws) @ concat (map (\<lambda>n. '', '' @ n) (tl (?D ws))) @ ''. '')
      @ (if ?E ws = [] then []
         else ''Errors: '' @ hd (?E ws) @ concat (map (\<lambda>x. ''; '' @ x) (tl (?E ws))))"
    using some by (simp only: summary_explicit if_False)
  finally have res: "delete_files_from_db B filenames (w, lg) =
       (Returns
          ((if ?D ws = [] then []
            else ''Deleted: '' @ hd (?D ws) @ concat (map (\<lambda>n. '', '' @ n) (tl (?D ws))) @ ''. '')
           @ (if ?E ws = [] then []
              else ''Errors: '' @ hd (?E ws) @ concat (map (\<lambda>x. ''; '' @ x) (tl (?E ws))))),
        (ws ! length filenames,
         lg @ GET_info #
           map DELETE_document (filter truthy (map (\<lambda>n. find_file_id fs n PNone) filenames))))" .
  show "\<exists>ws ds es.
          length ws = Suc (length filenames) \<and> ws ! 0 = w1 \<and>
          (\<forall>k<length filenames.
             ws ! Suc k =
               (if truthy (find_file_id fs (filenames ! k) PNone)
                then snd (delete_call B (find_file_id fs (filenames ! k) PNone) (ws ! k))
                else ws ! k)) \<and>
          ds = map (\<lambda>k. filenames ! k)
                 (filter (\<lambda>k. truthy (find_file_id fs (filenames ! k) PNone) \<and>
                     fst (delete_call B (find_file_id fs (filenames ! k) PNone) (ws ! k)) = None)
                    [0..<length filenames]) \<and>
          es = map (\<lambda>k. filenames ! k @ '': '' @
                     (if truthy (find_file_id fs (filenames ! k) PNone)
                      then (case fst (delete_call B (find_file_id fs (filenames ! k) PNone)
                                        (ws ! k)) of
                              Some ex \<Rightarrow> str_exn ex | None \<Rightarrow> [])
                      else ''Not found''))
                 (filter (\<lambda>k. \<not> (truthy (find_file_id fs (filenames ! k) PNone) \<and>
                     fst (delete_call B (find_file_id fs (filenames ! k) PNone) (ws ! k)) = None))
                    [0..<length filenames]) \<and>
          length ds + length es = length filenames \<and>
          delete_files_from_db B filenames (w, lg) =
            (Returns
               ((if ds = [] then []
                 else ''Deleted: '' @ hd ds @ concat (map (\<lambda>n. '', '' @ n) (tl ds)) @ ''. '')
                @ (if es = [] then []
                   else ''Errors: '' @ hd es @ concat (map (\<lambda>x. ''; '' @ x) (tl es)))),
             (ws ! length filenames,
              lg @ GET_info #
                map DELETE_document
                  (filter truthy (map (\<lambda>n. find_file_id fs n PNone) filenames))))"
    apply (rule exI [of _ ws])
    apply (rule exI [of _ "?D ws"])
    apply (rule exI [of _ "?E ws"])
    apply (intro conjI)
          apply (rule len)
         apply (rule w0)
        apply (rule steps)
       apply (rule refl)
      apply (rule refl)
     apply (rule cnt)
    apply (rule res)
    done
next
  assume h: "info_call B w = (Inr info, w1) \<and>
    files info = Some [\<lparr>file_id = fid, filename = ''a.pdf''\<rparr>] \<and>
    truthy fid \<and> delete_call B fid w1 = (None, w2)"
  then have fetch: "get_uploaded_files_info B (w, lg) =
      (Returns [\<lparr>file_id = fid, filename = ''a.pdf''\<rparr>], (w1, lg @ [GET_info]))"
    by (simp add: fetch_ok)
  from h have "delete_loop B [\<lparr>file_id = fid, filename = ''a.pdf''\<rparr>]
                 [''a.pdf'', ''missing.pdf''] [] [] (w1, lg @ [GET_info]) =
      (([''a.pdf''], [''missing.pdf: Not found'']), (w2, lg @ [GET_info, DELETE_document fid]))"
    by (simp add: perform_def)
  with fetch have res: "delete_files_from_db B [''a.pdf'', ''missing.pdf''] (w, lg) =
      (Returns ''Deleted: a.pdf. Errors: missing.pdf: Not found'',
       (w2, lg @ [GET_info, DELETE_document fid]))"
    by (simp add: delete_files_from_db_def summary_def)
  have "''Deleted: a.pdf. Errors: missing.pdf: Not found'' =
          [] @ ''Deleted: a.pdf'' @ ''. Errors: missing.pdf: Not found''" by simp
  then have s1: "sublist ''Deleted: a.pdf'' ''Deleted: a.pdf. Errors: missing.pdf: Not found''"
    unfolding sublist_def by blast
  have "''Deleted: a.pdf. Errors: missing.pdf: Not found'' =
          ''Deleted: a.pdf. '' @ ''Errors: missing.pdf: Not found'' @ []" by simp
  then have s2: "sublist ''Errors: missing.pdf: Not found''
                   ''Deleted: a.pdf. Errors: missing.pdf: Not found''"
    unfolding sublist_def by blast
  from res s1 s2
  show "\<exists>msg. delete_files_from_db B [''a.pdf'', ''missing.pdf''] (w, lg) =
                (Returns msg, (w2, lg @ [GET_info, DELETE_document fid])) \<and>
             msg = ''Deleted: a.pdf. Errors: missing.pdf: Not found'' \<and>
             sublist ''Deleted: a.pdf'' msg \<and>
             sublist ''Errors: missing.pdf: Not found'' msg"
    by blast
qed

theorem delete_summary_witness:
  "[''a.pdf'', ''b.pdf'', ''a.pdf'', ''missing.pdf''] \<noteq> [] \<and>
   info_call sample_backend
       [\<lparr>file_id = PStr ''1'', filename = ''a.pdf''\<rparr>,
        \<lparr>file_id = PStr ''2'', filename = ''b.pdf''\<rparr>] =
     (Inr \<lparr>snapshot_status = ''ok'',
           files = Some [\<lparr>file_id = PStr ''1'', filename = ''a.pdf''\<rparr>,
                         \<lparr>file_id = PStr ''2'', filename = ''b.pdf''\<rparr>]\<rparr>,
      [\<lparr>file_id = PStr ''1'', filename = ''a.pdf''\<rparr>,
       \<lparr>file_id = PStr ''2'', filename = ''b.pdf''\<rparr>]) \<and>
   delete_files_from_db sample_backend [''a.pdf'', ''b.pdf'', ''a.pdf'', ''missing.pdf'']
       ([\<lparr>file_id = PStr ''1'', filename = ''a.pdf''\<rparr>,
         \<lparr>file_id = PStr ''2'', filename = ''b.pdf''\<rparr>], []) =
     (Returns (''Deleted: a.pdf, b.pdf. '' @
               ''Errors: a.pdf: 404 Client Error: Not Found; missing.pdf: Not found''),
      ([], [GET_info, DELETE_document (PStr ''1''), DELETE_document (PStr ''2''),
            DELETE_document (PStr ''1'')])) \<and>
   info_call sample_backend [\<lparr>file_id = PStr ''1'', filename = ''a.pdf''\<rparr>] =
     (Inr \<lparr>snapshot_status = ''ok'', files = Some [\<lparr>file_id = PStr ''1'', filename = ''a.pdf''\<rparr>]\<rparr>,
      [\<lparr>file_id = PStr ''1'', filename = ''a.pdf''\<rparr>]) \<and>
   truthy (PStr ''1'') \<and>
   delete_call sample_backend (PStr ''1'') [\<lparr>file_id = PStr ''1'', filename = ''a.pdf''\<rparr>] =
     (None, []) \<and>
   delete_files_from_db sample_backend [''a.pdf'', ''missing.pdf'']
       ([\<lparr>file_id = PStr ''1'', filename = ''a.pdf''\<rparr>], []) =
     (Returns ''Deleted: a.pdf. Errors: missing.pdf: Not found'',
      ([], [GET_info, DELETE_document (PStr ''1'')])) \<and>
   summary [] [] = ''No files deleted.''"
proof -
  let ?a = "\<lparr>file_id = PStr ''1'', filename = ''a.pdf''\<rparr>"
  let ?b = "\<lparr>file_id = PStr ''2'', filename = ''b.pdf''\<rparr>"
  let ?sel = "[''a.pdf'', ''b.pdf'', ''a.pdf'', ''missing.pdf'']"
  let ?info2 = "\<lparr>snapshot_status = ''ok'', files = Some [?a, ?b]\<rparr>"
  let ?info1 = "\<lparr>snapshot_status = ''ok'', files = Some [?a]\<rparr>"
  note thm2 = delete_summary [of "[]" "[]" ?sel sample_backend "[?a, ?b]" "Inr ?info2" "[?a, ?b]"
                                 "[?a, ?b]" "[]"]
  note thm1 = delete_summary [of "[]" "[]" "[''a.pdf'']" sample_backend "[?a]" "Inr ?info1" "[?a]"
                                 "[?a]" "[]" ?info1 "PStr ''1''" "[]"]
  have g1: "?sel \<noteq> []" by simp
  have g2: "info_call sample_backend [?a, ?b] = (Inr ?info2, [?a, ?b])"
    by (simp add: sample_backend_def)
  have g3: "[?a, ?b] = (case Inr ?info2 of Inl ex \<Rightarrow> []
          | Inr info \<Rightarrow> (case files info of None \<Rightarrow> [] | Some xs \<Rightarrow> xs))"
    by simp
  from thm2 g1 g2 g3 obtain ws ds es where
    len: "length ws = Suc (length ?sel)" and w0: "ws ! 0 = [?a, ?b]"
    and steps: "\<forall>k<length ?sel.
             ws ! Suc k =
               (if truthy (find_file_id [?a, ?b] (?sel ! k) PNone)
                then snd (delete_call sample_backend (find_file_id [?a, ?b] (?sel ! k) PNone) (ws ! k))
                else ws ! k)"
    and ds: "ds = map (\<lambda>k. ?sel ! k)
                 (filter (\<lambda>k. truthy (find_file_id [?a, ?b] (?sel ! k) PNone) \<and>
                     fst (delete_call sample_backend (find_file_id [?a, ?b] (?sel ! k) PNone) (ws ! k)) = None)
                    [0..<length ?sel])"
    and es: "es = map (\<lambda>k. ?sel ! k @ '': '' @
                     (if truthy (find_file_id [?a, ?b] (?sel ! k) PNone)
                      then (case fst (delete_call sample_backend (find_file_id [?a, ?b] (?sel ! k) PNone)
                                        (ws ! k)) of
                              Some ex \<Rightarrow> str_exn ex | None \<Rightarrow> [])
                      else ''Not found''))
                 (filter (\<lambda>k. \<not> (truthy (find_file_id [?a, ?b] (?sel ! k) PNone) \<and>
                     fst (delete_call sample_backend (find_file_id [?a, ?b] (?sel ! k) PNone) (ws ! k)) = None))
                    [0..<length ?sel])"
    and res: "delete_files_from_db sample_backend ?sel ([?a, ?b], []) =
            (Returns
               ((if ds = [] then []
                 else ''Deleted: '' @ hd ds @ concat (map (\<lambda>n. '', '' @ n) (tl ds)) @ ''. '')
                @ (if es = [] then []
                   else ''Errors: '' @ hd es @ concat (map (\<lambda>x. ''; '' @ x) (tl es)))),
             (ws ! length ?sel,
              [] @ GET_info #
                map DELETE_document
                  (filter truthy (map (\<lambda>n. find_file_id [?a, ?b] n PNone) ?sel))))"
    by blast
  from steps have "ws ! Suc 0 =
      (if truthy (find_file_id [?a, ?b] (?sel ! 0) PNone)
       then snd (delete_call sample_backend (find_file_id [?a, ?b] (?sel ! 0) PNone) (ws ! 0))
       else ws ! 0)" by simp
  with w0 have w1: "ws ! Suc 0 = [?b]" by (simp add: sample_backend_def)
  from steps have "ws ! Suc (Suc 0) =
      (if truthy (find_file_id [?a, ?b] (?sel ! Suc 0) PNone)
       then snd (delete_call sample_backend (find_file_id [?a, ?b] (?sel ! Suc 0) PNone) (ws ! Suc 0))
       else ws ! Suc 0)" by simp
  with w1 have w2: "ws ! Suc (Suc 0) = []" by (simp add: sample_backend_def)
  from steps have "ws ! Suc (Suc (Suc 0)) =
      (if truthy (find_file_id [?a, ?b] (?sel ! Suc (Suc 0)) PNone)
       then snd (delete_call sample_backend (find_file_id [?a, ?b] (?sel ! Suc (Suc 0)) PNone)
                   (ws ! Suc (Suc 0)))
       else ws ! Suc (Suc 0))" by simp
  with w2 have w3: "ws ! Suc (Suc (Suc 0)) = []" by (simp add: sample_backend_def)
  from steps have "ws ! Suc (Suc (Suc (Suc 0))) =
      (if truthy (find_file_id [?a, ?b] (?sel ! Suc (Suc (Suc 0))) PNone)
       then snd (delete_call sample_backend
                   (find_file_id [?a, ?b] (?sel ! Suc (Suc (Suc 0))) PNone)
                   (ws ! Suc (Suc (Suc 0))))
       else ws ! Suc (Suc (Suc 0)))" by simp
  with w3 have w4: "ws ! Suc (Suc (Suc (Suc 0))) = []" by simp
  from ds w0 w1 w2 w3 have ds': "ds = [''a.pdf'', ''b.pdf'']"
    by (simp add: sample_backend_def)
  from es w0 w1 w2 w3 have es': "es = [''a.pdf: 404 Client Error: Not Found'',
                                       ''missing.pdf: Not found'']"
    by (simp add: sample_backend_def)
  from res ds' es' w4 have r2:
    "delete_files_from_db sample_backend ?sel ([?a, ?b], []) =
     (Returns (''Deleted: a.pdf, b.pdf. '' @
               ''Errors: a.pdf: 404 Client Error: Not Found; missing.pdf: Not found''),
      ([], [GET_info, DELETE_document (PStr ''1''), DELETE_document (PStr ''2''),
            DELETE_document (PStr ''1'')]))"
    by simp
  have h1: "info_call sample_backend [?a] = (Inr ?info1, [?a])"
    by (simp add: sample_backend_def)
  have h3: "truthy (PStr ''1'')" by simp
  have h4: "delete_call sample_backend (PStr ''1'') [?a] = (None, [])"
    by (simp add: sample_backend_def)
  have h2: "files ?info1 = Some [\<lparr>file_id = PStr ''1'', filename = ''a.pdf''\<rparr>]" by simp
  from thm1 h1 h2 h3 h4 have r1:
    "delete_files_from_db sample_backend [''a.pdf'', ''missing.pdf''] ([?a], []) =
       (Returns ''Deleted: a.pdf. Errors: missing.pdf: Not found'',
        ([], [GET_info, DELETE_document (PStr ''1'')]))"
    by auto
  from thm1 have r0: "summary [] [] = ''No files deleted.''" by simp
  from g1 g2 r2 h1 h3 h4 r1 r0 show ?thesis by blast
qed

text \<open>
  Claim C5, as amended. A filename is resolved to the \<^verbatim>\<open>file_id\<close> of the first record of
  the snapshot with that filename, also when later records share the filename. For
  that filename the client issues one DELETE, for that identifier and no other, when the
  identifier is truthy, and no DELETE at all when it is falsy (\<^verbatim>\<open>if file_id:\<close>). For a
  whole selection the requests are the GET followed by the DELETEs of the truthy
  resolved identifiers, in the order of the selection.
\<close>

theorem first_match_resolution:
  "(i < length fs \<and> filename (fs ! i) = fname \<and> (\<forall>j<i. filename (fs ! j) \<noteq> fname) \<longrightarrow>
      find_file_id fs fname PNone = file_id (fs ! i) \<and>
      (info_call B w = (Inr info, w1) \<and> files info = Some fs \<longrightarrow>
         snd (snd (delete_files_from_db B [fname] (w, lg))) =
           lg @ GET_info #
             (if truthy (file_id (fs ! i)) then [DELETE_document (file_id (fs ! i))] else []))) \<and>
   (filenames \<noteq> [] \<and> info_call B w = (Inr info, w1) \<and> files info = Some fs \<longrightarrow>
      snd (snd (delete_files_from_db B filenames (w, lg))) =
        lg @ GET_info #
          map DELETE_document (filter truthy (map (\<lambda>n. find_file_id fs n PNone) filenames)))"
proof (intro conjI impI)
  assume h: "i < length fs \<and> filename (fs ! i) = fname \<and> (\<forall>j<i. filename (fs ! j) \<noteq> fname)"
  then show "find_file_id fs fname PNone = file_id (fs ! i)"
    by (simp add: find_file_id_first)
next
  assume h: "i < length fs \<and> filename (fs ! i) = fname \<and> (\<forall>j<i. filename (fs ! j) \<noteq> fname)"
    and f: "info_call B w = (Inr info, w1) \<and> files info = Some fs"
  from h have r: "find_file_id fs fname PNone = file_id (fs ! i)"
    by (simp add: find_file_id_first)
  from f have f1: "info_call B w = (Inr info, w1)" and f2: "files info = Some fs" by simp_all
  have "snd (snd (delete_files_from_db B [fname] (w, lg))) =
      lg @ GET_info #
        map DELETE_document (filter truthy (map (\<lambda>n. find_file_id fs n PNone) [fname]))"
    by (rule delete_effects [OF _ f1 f2]) simp
  with r show "snd (snd (delete_files_from_db B [fname] (w, lg))) =
      lg @ GET_info #
        (if truthy (file_id (fs ! i)) then [DELETE_document (file_id (fs ! i))] else [])"
    by simp
next
  assume g: "filenames \<noteq> [] \<and> info_call B w = (Inr info, w1) \<and> files info = Some fs"
  then have g0: "filenames \<noteq> []" and g1: "info_call B w = (Inr info, w1)"
    and g2: "files info = Some fs" by simp_all
  show "snd (snd (delete_files_from_db B filenames (w, lg))) =
      lg @ GET_info #
        map DELETE_document (filter truthy (map (\<lambda>n. find_file_id fs n PNone) filenames))"
    by (rule delete_effects [OF g0 g1 g2])
qed

theorem first_match_resolution_witness:
  "(1::nat) < length [\<lparr>file_id = PStr ''7'', filename = ''b.pdf''\<rparr>,
                      \<lparr>file_id = PStr ''1'', filename = ''a.pdf''\<rparr>,
                      \<lparr>file_id = PStr ''2'', filename = ''a.pdf''\<rparr>] \<and>
   filename ([\<lparr>file_id = PStr ''7'', filename = ''b.pdf''\<rparr>,
              \<lparr>file_id = PStr ''1'', filename = ''a.pdf''\<rparr>,
              \<lparr>file_id = PStr ''2'', filename = ''a.pdf''\<rparr>] ! 1) = ''a.pdf'' \<and>
   filename ([\<lparr>file_id = PStr ''7'', filename = ''b.pdf''\<rparr>,
              \<lparr>file_id = PStr ''1'', filename = ''a.pdf''\<rparr>,
              \<lparr>file_id = PStr ''2'', filename = ''a.pdf''\<rparr>] ! 0) \<noteq> ''a.pdf'' \<and>
   find_file_id [\<lparr>file_id = PStr ''7'', filename = ''b.pdf''\<rparr>,
                 \<lparr>file_id = PStr ''1'', filename = ''a.pdf''\<rparr>,
                 \<lparr>file_id = PStr ''2'', filename = ''a.pdf''\<rparr>] ''a.pdf'' PNone = PStr ''1'' \<and>
   snd (snd (delete_files_from_db sample_backend [''a.pdf'']
               ([\<lparr>file_id = PStr ''7'', filename = ''b.pdf''\<rparr>,
                 \<lparr>file_id = PStr ''1'', filename = ''a.pdf''\<rparr>,
                 \<lparr>file_id = PStr ''2'', filename = ''a.pdf''\<rparr>], []))) =
     [GET_info, DELETE_document (PStr ''1'')]"
proof -
  let ?fs = "[\<lparr>file_id = PStr ''7'', filename = ''b.pdf''\<rparr>,
              \<lparr>file_id = PStr ''1'', filename = ''a.pdf''\<rparr>,
              \<lparr>file_id = PStr ''2'', filename = ''a.pdf''\<rparr>]"
  let ?info = "\<lparr>snapshot_status = ''ok'', files = Some ?fs\<rparr>"
  have h1: "(1::nat) < length ?fs" by simp
  have h2: "filename (?fs ! 1) = ''a.pdf''" by simp
  have h3: "\<forall>j<1::nat. filename (?fs ! j) \<noteq> ''a.pdf''" by simp
  have h4: "info_call sample_backend ?fs = (Inr ?info, ?fs)"
    by (simp add: sample_backend_def)
  have h5: "files ?info = Some ?fs" by simp
  from first_match_resolution [of 1 ?fs "''a.pdf''" sample_backend ?fs ?info ?fs "[]" "[''a.pdf'']"]
  have "(1::nat) < length ?fs \<and> filename (?fs ! 1) = ''a.pdf'' \<and>
        (\<forall>j<1::nat. filename (?fs ! j) \<noteq> ''a.pdf'') \<longrightarrow>
        find_file_id ?fs ''a.pdf'' PNone = file_id (?fs ! 1) \<and>
        (info_call sample_backend ?fs = (Inr ?info, ?fs) \<and> files ?info = Some ?fs \<longrightarrow>
           snd (snd (delete_files_from_db sample_backend [''a.pdf''] (?fs, []))) =
             [] @ GET_info #
               (if truthy (file_id (?fs ! 1)) then [DELETE_document (file_id (?fs ! 1))] else []))"
    by (rule conjunct1)
  with h1 h2 h3 have c: "find_file_id ?fs ''a.pdf'' PNone = file_id (?fs ! 1) \<and>
        (info_call sample_backend ?fs = (Inr ?info, ?fs) \<and> files ?info = Some ?fs \<longrightarrow>
           snd (snd (delete_files_from_db sample_backend [''a.pdf''] (?fs, []))) =
             [] @ GET_info #
               (if truthy (file_id (?fs ! 1)) then [DELETE_document (file_id (?fs ! 1))] else []))"
    by blast
  from c have r: "find_file_id ?fs ''a.pdf'' PNone = PStr ''1''" by simp
  from c h4 h5 have "snd (snd (delete_files_from_db sample_backend [''a.pdf''] (?fs, []))) =
             [] @ GET_info #
               (if truthy (file_id (?fs ! 1)) then [DELETE_document (file_id (?fs ! 1))] else [])"
    by blast
  then have e: "snd (snd (delete_files_from_db sample_backend [''a.pdf''] (?fs, []))) =
      [GET_info, DELETE_document (PStr ''1'')]"
    by simp
  have h0: "filename (?fs ! 0) \<noteq> ''a.pdf''" by simp
  from h1 h2 h0 r e show ?thesis by blast
qed

text \<open>
  Claim C5 as stated fails where the first matching record has an empty \<^verbatim>\<open>file_id\<close>:
  the filename is resolved to that identifier, but no delete call is issued for it (and
  none for the second record either); the selection is reported as not found.
\<close>

theorem falsy_first_match_issues_no_delete:
  "delete_files_from_db sample_backend [''a.pdf'']
       ([\<lparr>file_id = PStr '''', filename = ''a.pdf''\<rparr>,
         \<lparr>file_id = PStr ''2'', filename = ''a.pdf''\<rparr>], []) =
     (Returns ''Errors: a.pdf: Not found'',
      ([\<lparr>file_id = PStr '''', filename = ''a.pdf''\<rparr>,
        \<lparr>file_id = PStr ''2'', filename = ''a.pdf''\<rparr>], [GET_info])) \<and>
   snd (snd (delete_files_from_db sample_backend [''a.pdf'']
       ([\<lparr>file_id = PStr '''', filename = ''a.pdf''\<rparr>,
         \<lparr>file_id = PStr ''2'', filename = ''a.pdf''\<rparr>], []))) \<noteq>
     [GET_info, DELETE_document (PStr '''')]"
  by (simp add: delete_files_from_db_def get_uploaded_files_info_def perform_def
        sample_backend_def summary_def)

text \<open>
  Claim C10. When the first record matching a selected filename has a falsy \<^verbatim>\<open>file_id\<close>,
  the loop step for that filename leaves the state as it is (no request) and appends
  \<^verbatim>\<open><filename>: Not found\<close> to the errors; the loop behaves as on the snapshot without
  any record of that filename; and the whole call returns a message with the clause
  \<^verbatim>\<open>Errors: \<close> that contains \<^verbatim>\<open><filename>: Not found\<close>, while its requests are those of
  the selection without that filename.
\<close>

theorem falsy_file_id_not_found:
  "i < length fs \<and> filename (fs ! i) = fname \<and> (\<forall>j<i. filename (fs ! j) \<noteq> fname) \<and>
   \<not> truthy (file_id (fs ! i)) \<longrightarrow>
     delete_loop B fs (fname # rest) deleted errors s =
       delete_loop B fs rest deleted (errors @ [fname @ '': Not found'']) s \<and>
     delete_loop B fs names deleted errors s =
       delete_loop B (filter (\<lambda>f. filename f \<noteq> fname) fs) names deleted errors s \<and>
     (fname \<in> set filenames \<and> info_call B w = (Inr info, w1) \<and> files info = Some fs \<longrightarrow>
        (\<exists>msg s'. delete_files_from_db B filenames (w, lg) = (Returns msg, s') \<and>
            sublist ''Errors: '' msg \<and> sublist (fname @ '': Not found'') msg \<and>
            snd s' = lg @ GET_info #
              map DELETE_document
                (filter truthy (map (\<lambda>n. find_file_id fs n PNone)
                   (filter (\<lambda>n. n \<noteq> fname) filenames)))))"
proof (intro impI)
  assume h: "i < length fs \<and> filename (fs ! i) = fname \<and> (\<forall>j<i. filename (fs ! j) \<noteq> fname) \<and>
             \<not> truthy (file_id (fs ! i))"
  then have "find_file_id fs fname PNone = file_id (fs ! i)"
    by (simp add: find_file_id_first)
  with h have falsy: "\<not> truthy (find_file_id fs fname PNone)" by simp
  from falsy have step: "delete_loop B fs (fname # rest) deleted errors s =
       delete_loop B fs rest deleted (errors @ [fname @ '': Not found'']) s"
    by simp
  from falsy have same: "delete_loop B fs names deleted errors s =
       delete_loop B (filter (\<lambda>f. filename f \<noteq> fname) fs) names deleted errors s"
    by (simp add: delete_loop_filter)
  have whole: "fname \<in> set filenames \<and> info_call B w = (Inr info, w1) \<and> files info = Some fs \<longrightarrow>
        (\<exists>msg s'. delete_files_from_db B filenames (w, lg) = (Returns msg, s') \<and>
            sublist ''Errors: '' msg \<and> sublist (fname @ '': Not found'') msg \<and>
            snd s' = lg @ GET_info #
              map DELETE_document
                (filter truthy (map (\<lambda>n. find_file_id fs n PNone)
                   (filter (\<lambda>n. n \<noteq> fname) filenames))))"
  proof (intro impI)
    assume a: "fname \<in> set filenames \<and> info_call B w = (Inr info, w1) \<and> files info = Some fs"
    then have ne: "filenames \<noteq> []" by auto
    from a have fetch: "get_uploaded_files_info B (w, lg) = (Returns fs, (w1, lg @ [GET_info]))"
      by (simp add: fetch_ok)
    obtain d e s2 where
      loop: "delete_loop B fs filenames [] [] (w1, lg @ [GET_info]) = ((d, e), s2)"
      by (metis surj_pair)
    from ne fetch loop have
      res: "delete_files_from_db B filenames (w, lg) = (Returns (summary d e), s2)"
      by (simp add: delete_files_from_db_def)
    from a falsy delete_loop_not_found [OF loop] have "(fname @ '': Not found'') \<in> set e"
      by blast
    then have sub: "sublist ''Errors: '' (summary d e) \<and> sublist (fname @ '': Not found'') (summary d e)"
      by (rule summary_has_error)
    from a have a1: "info_call B w = (Inr info, w1)" and a2: "files info = Some fs"
      by simp_all
    have "snd (snd (delete_files_from_db B filenames (w, lg))) =
        lg @ GET_info #
          map DELETE_document (filter truthy (map (\<lambda>n. find_file_id fs n PNone) filenames))"
      by (rule delete_effects [OF ne a1 a2])
    with res have "snd s2 = lg @ GET_info #
          map DELETE_document (filter truthy (map (\<lambda>n. find_file_id fs n PNone) filenames))"
      by simp
    also have "filter truthy (map (\<lambda>n. find_file_id fs n PNone) filenames) =
        filter truthy (map (\<lambda>n. find_file_id fs n PNone) (filter (\<lambda>n. n \<noteq> fname) filenames))"
      using falsy by (rule filter_truthy_skip)
    finally have eff: "snd s2 = lg @ GET_info #
          map DELETE_document
            (filter truthy (map (\<lambda>n. find_file_id fs n PNone)
               (filter (\<lambda>n. n \<noteq> fname) filenames)))" .
    from res sub eff show "\<exists>msg s'. delete_files_from_db B filenames (w, lg) = (Returns msg, s') \<and>
            sublist ''Errors: '' msg \<and> sublist (fname @ '': Not found'') msg \<and>
            snd s' = lg @ GET_info #
              map DELETE_document
                (filter truthy (map (\<lambda>n. find_file_id fs n PNone)
                   (filter (\<lambda>n. n \<noteq> fname) filenames)))"
      by blast
  qed
  from step same whole show
    "delete_loop B fs (fname # rest) deleted errors s =
       delete_loop B fs rest deleted (errors @ [fname @ '': Not found'']) s \<and>
     delete_loop B fs names deleted errors s =
       delete_loop B (filter (\<lambda>f. filename f \<noteq> fname) fs) names deleted errors s \<and>
     (fname \<in> set filenames \<and> info_call B w = (Inr info, w1) \<and> files info = Some fs \<longrightarrow>
        (\<exists>msg s'. delete_files_from_db B filenames (w, lg) = (Returns msg, s') \<and>
            sublist ''Errors: '' msg \<and> sublist (fname @ '': Not found'') msg \<and>
            snd s' = lg @ GET_info #
              map DELETE_document
                (filter truthy (map (\<lambda>n. find_file_id fs n PNone)
                   (filter (\<lambda>n. n \<noteq> fname) filenames)))))"
    by blast
qed

theorem falsy_file_id_not_found_witness:
  "(1::nat) < length [\<lparr>file_id = PStr ''7'', filename = ''b.pdf''\<rparr>,
                      \<lparr>file_id = PStr '''', filename = ''a.pdf''\<rparr>,
                      \<lparr>file_id = PStr ''2'', filename = ''a.pdf''\<rparr>] \<and>
   filename ([\<lparr>file_id = PStr ''7'', filename = ''b.pdf''\<rparr>,
              \<lparr>file_id = PStr '''', filename = ''a.pdf''\<rparr>,
              \<lparr>file_id = PStr ''2'', filename = ''a.pdf''\<rparr>] ! 1) = ''a.pdf'' \<and>
   filename ([\<lparr>file_id = PStr ''7'', filename = ''b.pdf''\<rparr>,
              \<lparr>file_id = PStr '''', filename = ''a.pdf''\<rparr>,
              \<lparr>file_id = PStr ''2'', filename = ''a.pdf''\<rparr>] ! 0) \<noteq> ''a.pdf'' \<and>
   \<not> truthy (file_id ([\<lparr>file_id = PStr ''7'', filename = ''b.pdf''\<rparr>,
              \<lparr>file_id = PStr '''', filename = ''a.pdf''\<rparr>,
              \<lparr>file_id = PStr ''2'', filename = ''a.pdf''\<rparr>] ! 1)) \<and>
   ''a.pdf'' \<in> set [''b.pdf'', ''a.pdf''] \<and>
   (\<exists>msg s'. delete_files_from_db sample_backend [''b.pdf'', ''a.pdf'']
                ([\<lparr>file_id = PStr ''7'', filename = ''b.pdf''\<rparr>,
                  \<lparr>file_id = PStr '''', filename = ''a.pdf''\<rparr>,
                  \<lparr>file_id = PStr ''2'', filename = ''a.pdf''\<rparr>], []) = (Returns msg, s') \<and>
      sublist ''Errors: '' msg \<and> sublist ''a.pdf: Not found'' msg \<and>
      snd s' = [GET_info, DELETE_document (PStr ''7'')])"
proof -
  let ?fs = "[\<lparr>file_id = PStr ''7'', filename = ''b.pdf''\<rparr>,
              \<lparr>file_id = PStr '''', filename = ''a.pdf''\<rparr>,
              \<lparr>file_id = PStr ''2'', filename = ''a.pdf''\<rparr>]"
  let ?info = "\<lparr>snapshot_status = ''ok'', files = Some ?fs\<rparr>"
  have h: "(1::nat) < length ?fs \<and> filename (?fs ! 1) = ''a.pdf'' \<and>
           (\<forall>j<1::nat. filename (?fs ! j) \<noteq> ''a.pdf'') \<and> \<not> truthy (file_id (?fs ! 1))"
    by simp
  have g: "''a.pdf'' \<in> set [''b.pdf'', ''a.pdf''] \<and>
           info_call sample_backend ?fs = (Inr ?info, ?fs) \<and> files ?info = Some ?fs"
    by (simp add: sample_backend_def)
  from falsy_file_id_not_found
         [of 1 ?fs "''a.pdf''" sample_backend "[]" "[]" "[]" "(?fs, [])" "[]"
             "[''b.pdf'', ''a.pdf'']" ?fs ?info ?fs "[]"] h
  have "''a.pdf'' \<in> set [''b.pdf'', ''a.pdf''] \<and>
        info_call sample_backend ?fs = (Inr ?info, ?fs) \<and> files ?info = Some ?fs \<longrightarrow>
        (\<exists>msg s'. delete_files_from_db sample_backend [''b.pdf'', ''a.pdf''] (?fs, []) =
                     (Returns msg, s') \<and>
            sublist ''Errors: '' msg \<and> sublist (''a.pdf'' @ '': Not found'') msg \<and>
            snd s' = [] @ GET_info #
              map DELETE_document
                (filter truthy (map (\<lambda>n. find_file_id ?fs n PNone)
                   (filter (\<lambda>n. n \<noteq> ''a.pdf'') [''b.pdf'', ''a.pdf'']))))"
    by blast
  with g have "\<exists>msg s'. delete_files_from_db sample_backend [''b.pdf'', ''a.pdf''] (?fs, []) =
                     (Returns msg, s') \<and>
            sublist ''Errors: '' msg \<and> sublist (''a.pdf'' @ '': Not found'') msg \<and>
            snd s' = [] @ GET_info #
              map DELETE_document
                (filter truthy (map (\<lambda>n. find_file_id ?fs n PNone)
                   (filter (\<lambda>n. n \<noteq> ''a.pdf'') [''b.pdf'', ''a.pdf''])))"
    by blast
  then have "\<exists>msg s'. delete_files_from_db sample_backend [''b.pdf'', ''a.pdf''] (?fs, []) =
                     (Returns msg, s') \<and>
            sublist ''Errors: '' msg \<and> sublist ''a.pdf: Not found'' msg \<and>
            snd s' = [GET_info, DELETE_document (PStr ''7'')]"
    by simp
  moreover have "filename (?fs ! 0) \<noteq> ''a.pdf''" by simp
  ultimately show ?thesis using h g by blast
qed

end
